theory Spec2Isabelle
  imports Complex_Main
begin

section \<open>Data model of the dashboard (dashboard/src/App.tsx)\<close>

text \<open>
  The four entity interfaces of \<^verbatim>\<open>App.tsx\<close> become records and its string-literal union
  types become datatypes. Record fields carry a short prefix of their interface, since
  \<^verbatim>\<open>id\<close>, \<^verbatim>\<open>status\<close> and \<^verbatim>\<open>agent_id\<close> occur in more than one interface.
  An optional, nullable field (\<^verbatim>\<open>current_task_id?: string | null\<close>) is a \<open>string option\<close>.
  The numeric columns of a performance row are JavaScript numbers on which nothing here
  computes; their type is left as the parameter \<open>'n\<close>.
\<close>

datatype AgentType = CrewAI | LangGraph | BeeAI | OpenClaw | Admin

datatype AgentStatus = Online | Offline | Busy | Error

record Agent =
  a_id :: string
  a_name :: string
  a_type :: AgentType
  a_status :: AgentStatus
  a_last_heartbeat :: string
  a_current_task_id :: "string option"

record Heartbeat =
  hb_id :: string
  hb_agent_id :: string
  hb_timestamp :: string
  hb_status :: AgentStatus

datatype AlertSeverity = Info | Warning | Critical

record Alert =
  al_id :: string
  al_severity :: AlertSeverity
  al_message :: string
  al_related_agent_id :: "string option"
  al_created_at :: string

record 'n PerformanceMetric =
  pm_agent_id :: string
  pm_cpu_usage :: 'n
  pm_memory_usage :: 'n
  pm_tasks_per_minute :: 'n
  pm_error_rate_per_hour :: 'n

datatype MainTab = Crons | Decisions | Signals | Costs | Performance | Architecture


section \<open>Derived views (the \<^verbatim>\<open>useMemo\<close> blocks)\<close>

text \<open>
  \<^verbatim>\<open>agents.find((a) => a.id === selectedAgentId) ?? null\<close>. The state variable is
  \<^verbatim>\<open>string | null\<close>; \<^verbatim>\<open>===\<close> between a string and \<^verbatim>\<open>null\<close> is false for every agent,
  so a null selection finds nothing. \<^verbatim>\<open>find\<close> returns the first match in array order.
\<close>

definition selectedAgent :: "Agent list \<Rightarrow> string option \<Rightarrow> Agent option" where
  "selectedAgent ags sel =
     (case sel of
        None \<Rightarrow> None
      | Some sid \<Rightarrow> find (\<lambda>a. a_id a = sid) ags)"

text \<open>\<^verbatim>\<open>agents.filter((a) => a.status === 'offline' || a.status === 'error').length\<close>\<close>

definition overdueCount :: "Agent list \<Rightarrow> nat" where
  "overdueCount ags =
     length (filter (\<lambda>a. a_status a = Offline \<or> a_status a = Error) ags)"

text \<open>\<^verbatim>\<open>alerts.filter((a) => a.severity === 'critical').length\<close>\<close>

definition highPriorityAlertsCount :: "Alert list \<Rightarrow> nat" where
  "highPriorityAlertsCount als =
     length (filter (\<lambda>a. al_severity a = Critical) als)"

text \<open>
  \<^verbatim>\<open>const map = new Map(); perfMetrics.forEach((m) => map.set(m.agent_id, m))\<close>.
  The \<^verbatim>\<open>Map\<close> is a partial function on strings; \<^verbatim>\<open>forEach\<close> visits the rows in
  array order, each \<^verbatim>\<open>set\<close> overwriting an earlier entry of the same key.
\<close>

definition perfByAgent ::
  "'n PerformanceMetric list \<Rightarrow> (string \<rightharpoonup> 'n PerformanceMetric)" where
  "perfByAgent pms =
     fold (\<lambda>m mp. mp(pm_agent_id m \<mapsto> m)) pms Map.empty"

text \<open>
  \<^verbatim>\<open>counts: Record<AgentType, number>\<close>, all five keys initialised to 0, then
  \<^verbatim>\<open>counts[a.type] += 1\<close> for each agent. A record keyed by the closed type
  \<^verbatim>\<open>AgentType\<close> is a function on \<open>AgentType\<close>; the counters stay far below
  \<open>2^53\<close>, so a \<open>nat\<close> is what the JavaScript number holds.
\<close>

definition typeCounts :: "Agent list \<Rightarrow> (AgentType \<Rightarrow> nat)" where
  "typeCounts ags =
     fold (\<lambda>a counts. counts(a_type a := counts (a_type a) + 1)) ags (\<lambda>_. 0)"

text \<open>
  \<^verbatim>\<open>health: Record<AgentType, { online: number; offline: number }>\<close>. Every key gets its
  own copy \<^verbatim>\<open>{ ...base }\<close> of the zero pair, so the five entries do not alias.
\<close>

record Health =
  online :: nat
  offline :: nat

definition typeHealth :: "Agent list \<Rightarrow> (AgentType \<Rightarrow> Health)" where
  "typeHealth ags =
     fold (\<lambda>a health.
             if a_status a = Online \<or> a_status a = Busy
             then health(a_type a := (health (a_type a))\<lparr>online := online (health (a_type a)) + 1\<rparr>)
             else health(a_type a := (health (a_type a))\<lparr>offline := offline (health (a_type a)) + 1\<rparr>))
          ags (\<lambda>_. \<lparr>online = 0, offline = 0\<rparr>)"

text \<open>
  A JavaScript \<^verbatim>\<open>Date\<close> holds either an integral time value (milliseconds since the
  epoch) or \<^verbatim>\<open>NaN\<close>, the "Invalid Date" that \<^verbatim>\<open>new Date(s)\<close> yields for a string it
  cannot parse. \<^verbatim>\<open>ts > current\<close> on two dates compares their time values as numbers,
  and every comparison with \<^verbatim>\<open>NaN\<close> is false.
\<close>

datatype JsDate = ValidDate int | InvalidDate

fun date_gt :: "JsDate \<Rightarrow> JsDate \<Rightarrow> bool" where
  "date_gt (ValidDate x) (ValidDate y) = (x > y)"
| "date_gt _ _ = False"

text \<open>
  \<^verbatim>\<open>typeLastActivity\<close>: the table \<^verbatim>\<open>last: Record<AgentType, Date | null>\<close> starts all
  \<^verbatim>\<open>null\<close>; for each heartbeat in array order the owning agent is looked up with
  \<^verbatim>\<open>agents.find\<close>, a heartbeat without one is skipped (\<^verbatim>\<open>if (!agent) return\<close>), and the
  entry of the agent's type is replaced when it is still \<^verbatim>\<open>null\<close> or when
  \<^verbatim>\<open>ts > current\<close>. A \<^verbatim>\<open>Date\<close> object is truthy even when invalid, so \<^verbatim>\<open>!current\<close>
  holds for \<^verbatim>\<open>null\<close> only. The string parser of \<^verbatim>\<open>new Date(hb.timestamp)\<close> belongs to
  the JavaScript runtime and is the parameter \<open>newDate\<close>.
\<close>

definition last_step ::
  "(string \<Rightarrow> JsDate) \<Rightarrow> Agent list \<Rightarrow> Heartbeat \<Rightarrow> (AgentType \<Rightarrow> JsDate option)
     \<Rightarrow> (AgentType \<Rightarrow> JsDate option)" where
  "last_step newDate ags hb lst =
     (case find (\<lambda>a. a_id a = hb_agent_id hb) ags of
        None \<Rightarrow> lst
      | Some agent \<Rightarrow>
          (let ts = newDate (hb_timestamp hb) in
           case lst (a_type agent) of
             None \<Rightarrow> lst(a_type agent := Some ts)
           | Some current \<Rightarrow>
               if date_gt ts current then lst(a_type agent := Some ts) else lst))"

definition typeLastActivity ::
  "(string \<Rightarrow> JsDate) \<Rightarrow> Heartbeat list \<Rightarrow> Agent list \<Rightarrow> (AgentType \<Rightarrow> JsDate option)" where
  "typeLastActivity newDate hbs ags =
     fold (last_step newDate ags) hbs (\<lambda>_. None)"

text \<open>
  The architecture card:
  \<^verbatim>\<open>typeLastActivity.X ? typeLastActivity.X.toLocaleTimeString() : dash\<close>, where \<^verbatim>\<open>dash\<close>
  is the one-character string holding an em-dash. The locale rendering of a date is
  left symbolic.
\<close>

datatype ActivityCell = EmDash | LocaleTimeString JsDate

definition lastActivityCell :: "JsDate option \<Rightarrow> ActivityCell" where
  "lastActivityCell d = (case d of None \<Rightarrow> EmDash | Some t \<Rightarrow> LocaleTimeString t)"

text \<open>
  The reading of the per-type last activity that the specification gives: the greatest
  time value among the heartbeats whose \<^verbatim>\<open>agent_id\<close> resolves, by the same first-match
  lookup, to an agent of the type; no value when there is no such heartbeat.
\<close>

definition resolves_to :: "Agent list \<Rightarrow> AgentType \<Rightarrow> Heartbeat \<Rightarrow> bool" where
  "resolves_to ags t hb =
     (case find (\<lambda>a. a_id a = hb_agent_id hb) ags of
        None \<Rightarrow> False
      | Some agent \<Rightarrow> a_type agent = t)"

fun time_value :: "JsDate \<Rightarrow> int option" where
  "time_value (ValidDate x) = Some x"
| "time_value InvalidDate = None"

definition spec_lastActivity ::
  "(string \<Rightarrow> JsDate) \<Rightarrow> Heartbeat list \<Rightarrow> Agent list \<Rightarrow> AgentType \<Rightarrow> JsDate option" where
  "spec_lastActivity newDate hbs ags t =
     (case List.map_filter (\<lambda>hb. time_value (newDate (hb_timestamp hb)))
             (filter (resolves_to ags t) hbs) of
        [] \<Rightarrow> None
      | x # xs \<Rightarrow> Some (ValidDate (Max (set (x # xs)))))"


section \<open>Application state and rendering\<close>

text \<open>
  The eleven \<^verbatim>\<open>useState\<close> cells of \<^verbatim>\<open>App\<close>, with their initial values. \<^verbatim>\<open>lastUpdated\<close>
  only ever holds \<^verbatim>\<open>new Date()\<close>, the current time, a valid date.
\<close>

record 'n AppState =
  agents :: "Agent list"
  heartbeats :: "Heartbeat list"
  perfMetrics :: "'n PerformanceMetric list"
  alerts :: "Alert list"
  loading :: bool
  error :: "string option"
  selectedAgentId :: "string option"
  activeTab :: MainTab
  lastUpdated :: "int option"
  showAlertsPanel :: bool
  refreshSeconds :: nat

definition initial_state :: "'n AppState" where
  "initial_state =
     \<lparr>agents = [], heartbeats = [], perfMetrics = [], alerts = [], loading = True,
      error = None, selectedAgentId = None, activeTab = Crons, lastUpdated = None,
      showAlertsPanel = False, refreshSeconds = 15\<rparr>"

text \<open>
  Truthiness of a \<^verbatim>\<open>string | null\<close>, as \<^verbatim>\<open>!selectedAgentId\<close>, \<^verbatim>\<open>!error\<close> and
  \<^verbatim>\<open>error && ...\<close> test it: \<^verbatim>\<open>null\<close> and the empty string are falsy.
\<close>

definition truthy :: "string option \<Rightarrow> bool" where
  "truthy v = (case v of None \<Rightarrow> False | Some str \<Rightarrow> str \<noteq> [])"

text \<open>
  The right column: \<^verbatim>\<open>selectedAgent ? <detail-pane> : <detail-empty>\<close>; inside the pane,
  \<^verbatim>\<open>perfByAgent.get(selectedAgent.id)\<close> picks the performance block. Objects are truthy.
\<close>

datatype 'n DetailPane = DetailEmpty | DetailOf Agent "'n PerformanceMetric option"

definition detailPane :: "'n AppState \<Rightarrow> 'n DetailPane" where
  "detailPane s =
     (case selectedAgent (agents s) (selectedAgentId s) of
        None \<Rightarrow> DetailEmpty
      | Some a \<Rightarrow> DetailOf a (perfByAgent (perfMetrics s) (a_id a)))"

text \<open>
  What the component renders. The top bar is unconditional:
  \<^verbatim>\<open>{overdueCount} agents with issues . {agents.length} total\<close> and, once set, the time of
  the last update. Inside \<^verbatim>\<open><main>\<close>: \<^verbatim>\<open>{loading && <loading>}\<close>,
  \<^verbatim>\<open>{error && !loading && <error-banner>}\<close> and, under \<^verbatim>\<open>{!loading && !error && ...}\<close>,
  the alert strip and the three columns (agent cards, tables, detail pane). Of the
  columns the view keeps the agent cards and the detail pane.
\<close>

record 'n View =
  v_top_summary :: "nat \<times> nat"
  v_last_update :: "int option"
  v_loading :: bool
  v_error_banner :: "string option"
  v_columns :: "(Agent list \<times> 'n DetailPane) option"

definition render :: "'n AppState \<Rightarrow> 'n View" where
  "render s =
     \<lparr>v_top_summary = (overdueCount (agents s), length (agents s)),
      v_last_update = lastUpdated s,
      v_loading = loading s,
      v_error_banner = (if truthy (error s) \<and> \<not> loading s then error s else None),
      v_columns = (if \<not> loading s \<and> \<not> truthy (error s)
                   then Some (agents s, detailPane s) else None)\<rparr>"


section \<open>The fetch/refresh controller (\<^verbatim>\<open>fetchAll\<close> inside \<^verbatim>\<open>useEffect\<close>)\<close>

text \<open>
  A value caught by \<^verbatim>\<open>catch (err)\<close>: an \<^verbatim>\<open>Error\<close> with its message, or anything else.
  A \<^verbatim>\<open>fetch\<close> response is read through \<^verbatim>\<open>ok\<close>, \<^verbatim>\<open>status\<close> and \<^verbatim>\<open>json()\<close>; the
  last one either yields the parsed body (cast, unchecked, to the expected array type) or
  throws.
\<close>

datatype Thrown = ErrorObj string | NonErrorValue

record 'a Response =
  ok :: bool
  status :: nat
  json :: "Thrown + 'a"

type_synonym 'n Responses =
  "Agent list Response \<times> Heartbeat list Response
     \<times> 'n PerformanceMetric list Response \<times> Alert list Response"

text \<open>
  \<^verbatim>\<open>await Promise.all([fetch(..), fetch(..), fetch(..), fetch(..)])\<close> either throws the
  reason of the first \<^verbatim>\<open>fetch\<close> that rejects (a transport failure) or yields the four
  responses in request order.
\<close>

type_synonym 'n Settled = "Thrown + 'n Responses"

type_synonym 'n Snapshot =
  "Agent list \<times> Heartbeat list \<times> 'n PerformanceMetric list \<times> Alert list"

text \<open>Template-literal rendering of a status code: its decimal digits.\<close>

fun show_nat :: "nat \<Rightarrow> string" where
  "show_nat n =
     (if n < 10 then [''0123456789'' ! n]
      else show_nat (n div 10) @ [''0123456789'' ! (n mod 10)])"

declare show_nat.simps [simp del]

text \<open>
  The body of the \<^verbatim>\<open>try\<close> block up to the last \<^verbatim>\<open>json()\<close>: \<open>Inl\<close> is the value thrown,
  \<open>Inr\<close> the four decoded arrays. The four \<^verbatim>\<open>ok\<close> tests come first, in request order,
  then the four bodies are decoded, in request order.
\<close>

definition fetchAll_try :: "'n Settled \<Rightarrow> Thrown + 'n Snapshot" where
  "fetchAll_try settled =
     (case settled of
        Inl reason \<Rightarrow> Inl reason
      | Inr (agentsRes, hbRes, perfRes, alertsRes) \<Rightarrow>
          if \<not> ok agentsRes then
            Inl (ErrorObj (''Failed to load agents: '' @ show_nat (status agentsRes)))
          else if \<not> ok hbRes then
            Inl (ErrorObj (''Failed to load heartbeats: '' @ show_nat (status hbRes)))
          else if \<not> ok perfRes then
            Inl (ErrorObj (''Failed to load performance metrics: '' @ show_nat (status perfRes)))
          else if \<not> ok alertsRes then
            Inl (ErrorObj (''Failed to load alerts: '' @ show_nat (status alertsRes)))
          else
            (case json agentsRes of Inl e \<Rightarrow> Inl e | Inr agentsData \<Rightarrow>
             (case json hbRes of Inl e \<Rightarrow> Inl e | Inr hbData \<Rightarrow>
              (case json perfRes of Inl e \<Rightarrow> Inl e | Inr perfData \<Rightarrow>
               (case json alertsRes of Inl e \<Rightarrow> Inl e | Inr alertsData \<Rightarrow>
                  Inr (agentsData, hbData, perfData, alertsData))))))"

text \<open>\<^verbatim>\<open>setLoading(true)\<close>, the first statement of \<^verbatim>\<open>fetchAll\<close>.\<close>

definition fetchAll_begin :: "'n AppState \<Rightarrow> 'n AppState" where
  "fetchAll_begin s = s\<lparr>loading := True\<rparr>"

text \<open>
  The rest of \<^verbatim>\<open>fetchAll\<close>, run when the awaited \<^verbatim>\<open>Promise.all\<close> has settled. The
  state setters act on the state of that moment, \<open>s\<close>; the \<^verbatim>\<open>selectedAgentId\<close> that the
  bootstrap test reads is the constant of the render in which the effect created this
  \<^verbatim>\<open>fetchAll\<close>, the argument \<open>captured\<close>. \<open>now\<close> is the time value of \<^verbatim>\<open>new Date()\<close>.
\<close>

definition fetchAll_settle ::
  "string option \<Rightarrow> int \<Rightarrow> 'n Settled \<Rightarrow> 'n AppState \<Rightarrow> 'n AppState" where
  "fetchAll_settle captured now settled s =
     (case fetchAll_try settled of
        Inr (agentsData, hbData, perfData, alertsData) \<Rightarrow>
          (let s1 = s\<lparr>agents := agentsData, heartbeats := hbData, perfMetrics := perfData,
                      alerts := alertsData, error := None, lastUpdated := Some now\<rparr>;
               s2 = (if \<not> truthy captured \<and> length agentsData > 0
                     then s1\<lparr>selectedAgentId := Some (a_id (agentsData ! 0))\<rparr> else s1)
           in s2\<lparr>loading := False\<rparr>)
      | Inl err \<Rightarrow>
          s\<lparr>error := Some (case err of ErrorObj message \<Rightarrow> message
                            | NonErrorValue \<Rightarrow> ''Unknown error loading data''),
            loading := False\<rparr>)"

text \<open>
  The running application: the state, the \<^verbatim>\<open>fetchAll\<close> invocations still awaiting their
  responses (numbered in the order they were started, each with the selection its
  closure captured) and the number of invocations started so far. The source keeps no
  such numbering; it only names the invocations here.
\<close>

record 'n App =
  ui :: "'n AppState"
  pending :: "(nat \<times> string option) list"
  started :: nat

definition initial_app :: "'n App" where
  "initial_app = \<lparr>ui = initial_state, pending = [], started = 0\<rparr>"

text \<open>
  \<open>Invoke\<close>: \<^verbatim>\<open>fetchAll()\<close> is called by the effect on mount, by a tick of
  \<^verbatim>\<open>setInterval\<close>, or by the effect running again after the refresh interval changed.
  \<open>Settle k now r\<close>: the responses of invocation \<open>k\<close> arrive. \<open>Click i\<close>:
  \<^verbatim>\<open>onClick={() => setSelectedAgentId(agent.id)}\<close> on a card or row of agent \<open>i\<close>.
\<close>

datatype 'n Event = Invoke | Settle nat int "'n Settled" | Click string

definition invoke :: "'n App \<Rightarrow> 'n App" where
  "invoke app =
     app\<lparr>ui := fetchAll_begin (ui app),
         pending := pending app @ [(started app, selectedAgentId (ui app))],
         started := Suc (started app)\<rparr>"

text \<open>
  The dependency list \<^verbatim>\<open>[selectedAgentId, refreshSeconds]\<close>: after a render in which
  \<^verbatim>\<open>selectedAgentId\<close> differs from its previous value the effect runs again and calls
  \<^verbatim>\<open>fetchAll()\<close>. Its cleanup clears the interval only; nothing cancels an invocation
  that is still waiting.
\<close>

definition after_render :: "string option \<Rightarrow> 'n App \<Rightarrow> 'n App" where
  "after_render previous app =
     (if selectedAgentId (ui app) = previous then app else invoke app)"

fun step :: "'n App \<Rightarrow> 'n Event \<Rightarrow> 'n App" where
  "step app Invoke = invoke app"
| "step app (Settle k now settled) =
     (case map_of (pending app) k of
        None \<Rightarrow> app
      | Some captured \<Rightarrow>
          after_render (selectedAgentId (ui app))
            (app\<lparr>ui := fetchAll_settle captured now settled (ui app),
                 pending := filter (\<lambda>p. fst p \<noteq> k) (pending app)\<rparr>))"
| "step app (Click i) =
     after_render (selectedAgentId (ui app))
       (app\<lparr>ui := (ui app)\<lparr>selectedAgentId := Some i\<rparr>\<rparr>)"

definition run :: "'n App \<Rightarrow> 'n Event list \<Rightarrow> 'n App" where
  "run app events = foldl step app events"


section \<open>Vocabulary of the statements\<close>

text \<open>
  A refresh cycle fails, in the sense of the specification, when the joined fetches
  reject (transport failure) or one of the four responses has a non-success status.
\<close>

definition cycle_failed :: "'n Settled \<Rightarrow> bool" where
  "cycle_failed settled =
     (case settled of
        Inl reason \<Rightarrow> True
      | Inr (agentsRes, hbRes, perfRes, alertsRes) \<Rightarrow>
          \<not> (ok agentsRes \<and> ok hbRes \<and> ok perfRes \<and> ok alertsRes))"

text \<open>
  The failing resource a message names: the first response, in request order, whose
  status is not a success, with that status.
\<close>

definition first_failure :: "'n Responses \<Rightarrow> (string \<times> nat) option" where
  "first_failure rs =
     (case rs of (agentsRes, hbRes, perfRes, alertsRes) \<Rightarrow>
        map_option (\<lambda>row. (fst row, snd (snd row)))
          (find (\<lambda>row. \<not> fst (snd row))
             [(''agents'', ok agentsRes, status agentsRes),
              (''heartbeats'', ok hbRes, status hbRes),
              (''performance metrics'', ok perfRes, status perfRes),
              (''alerts'', ok alertsRes, status alertsRes)]))"

definition surfaced_message :: "'n Settled \<Rightarrow> string" where
  "surfaced_message settled =
     (case settled of
        Inl (ErrorObj message) \<Rightarrow> message
      | Inl NonErrorValue \<Rightarrow> ''Unknown error loading data''
      | Inr rs \<Rightarrow>
          (case first_failure rs of
             Some (resource, code) \<Rightarrow> ''Failed to load '' @ resource @ '': '' @ show_nat code
           | None \<Rightarrow> []))"


section \<open>Sample data\<close>

definition agentA :: Agent where
  "agentA = \<lparr>a_id = ''a1'', a_name = ''Alpha'', a_type = CrewAI, a_status = Online,
             a_last_heartbeat = ''2024-01-01T00:00:00.000Z'', a_current_task_id = None\<rparr>"

definition agentB :: Agent where
  "agentB = \<lparr>a_id = ''b2'', a_name = ''Beta'', a_type = LangGraph, a_status = Error,
             a_last_heartbeat = ''2024-01-01T00:00:00.000Z'', a_current_task_id = None\<rparr>"

definition agentC :: Agent where
  "agentC = \<lparr>a_id = ''c3'', a_name = ''Gamma'', a_type = BeeAI, a_status = Offline,
             a_last_heartbeat = ''2024-01-01T00:00:00.000Z'', a_current_task_id = Some ''t7''\<rparr>"

text \<open>An agent whose identifier is the empty string, and a later observation of \<open>agentA\<close>.\<close>

definition agentE :: Agent where
  "agentE = \<lparr>a_id = [], a_name = ''Echo'', a_type = Admin, a_status = Busy,
             a_last_heartbeat = ''2024-01-01T00:00:00.000Z'', a_current_task_id = None\<rparr>"

definition agentA_later :: Agent where
  "agentA_later = agentA\<lparr>a_status := Offline, a_last_heartbeat := ''2024-01-01T00:05:00.000Z''\<rparr>"

text \<open>
  \<open>sample_newDate\<close> stands for \<^verbatim>\<open>new Date(s)\<close> on the three timestamp strings of the
  samples: two ISO instants, and the empty string, which does not parse.
\<close>

definition sample_newDate :: "string \<Rightarrow> JsDate" where
  "sample_newDate str =
     (if str = ''2024-01-01T00:00:00.000Z'' then ValidDate 1704067200000
      else if str = ''2024-01-01T00:05:00.000Z'' then ValidDate 1704067500000
      else InvalidDate)"

definition hbEarly :: Heartbeat where
  "hbEarly = \<lparr>hb_id = ''h1'', hb_agent_id = ''a1'',
              hb_timestamp = ''2024-01-01T00:00:00.000Z'', hb_status = Online\<rparr>"

definition hbLate :: Heartbeat where
  "hbLate = \<lparr>hb_id = ''h2'', hb_agent_id = ''a1'',
             hb_timestamp = ''2024-01-01T00:05:00.000Z'', hb_status = Busy\<rparr>"

definition hbBlank :: Heartbeat where
  "hbBlank = \<lparr>hb_id = ''h3'', hb_agent_id = ''a1'', hb_timestamp = [], hb_status = Online\<rparr>"

definition hbDangling :: Heartbeat where
  "hbDangling = \<lparr>hb_id = ''h4'', hb_agent_id = ''zz'',
                 hb_timestamp = ''2024-01-01T00:05:00.000Z'', hb_status = Online\<rparr>"

definition pmFirst :: "real PerformanceMetric" where
  "pmFirst = \<lparr>pm_agent_id = ''a1'', pm_cpu_usage = 10, pm_memory_usage = 20,
              pm_tasks_per_minute = 3, pm_error_rate_per_hour = 0\<rparr>"

definition pmOther :: "real PerformanceMetric" where
  "pmOther = \<lparr>pm_agent_id = ''b2'', pm_cpu_usage = 55, pm_memory_usage = 40,
              pm_tasks_per_minute = 1, pm_error_rate_per_hour = 2\<rparr>"

definition pmSecond :: "real PerformanceMetric" where
  "pmSecond = \<lparr>pm_agent_id = ''a1'', pm_cpu_usage = 90, pm_memory_usage = 80,
               pm_tasks_per_minute = 7, pm_error_rate_per_hour = 1\<rparr>"

definition ok_response :: "'a \<Rightarrow> 'a Response" where
  "ok_response payload = \<lparr>ok = True, status = 200, json = Inr payload\<rparr>"

definition error_response :: "nat \<Rightarrow> 'a Response" where
  "error_response code =
     \<lparr>ok = False, status = code, json = Inl (ErrorObj ''Unexpected token I in JSON'')\<rparr>"

definition all_ok :: "Agent list \<Rightarrow> real Settled" where
  "all_ok ags = Inr (ok_response ags, ok_response [], ok_response [pmFirst], ok_response [])"

definition alerts_500 :: "Agent list \<Rightarrow> real Settled" where
  "alerts_500 ags =
     Inr (ok_response ags, ok_response [], ok_response [pmFirst], error_response 500)"

definition transport_failure :: "real Settled" where
  "transport_failure = Inl (ErrorObj ''Failed to fetch'')"

text \<open>
  Mount, first load of \<open>agentA\<close> and \<open>agentE\<close> (which selects \<open>agentA\<close> and so starts
  invocation 1), and the arrival of invocation 1.
\<close>

definition loaded :: "real App" where
  "loaded =
     run initial_app
       [Invoke, Settle 0 1000 (all_ok [agentA, agentE]), Settle 1 2000 (all_ok [agentA, agentE])]"

text \<open>
  Two invocations in flight at once: invocation 2 is a timer tick that fires while
  invocation 1 still waits, and the responses of invocation 2 arrive first.
\<close>

definition overlapped :: "real App" where
  "overlapped =
     run initial_app
       [Invoke, Settle 0 1000 (all_ok [agentA]), Invoke, Settle 2 3000 (all_ok [agentA_later])]"


text \<open>
  A slow first load: the timer starts invocation 1 while invocation 0, started on mount
  with nothing selected, still waits. Invocation 1 delivers agents A and B and selects
  A, invocation 2 (started by that selection) delivers the same, and the user then
  clicks the card of B. Invocation 0 is still waiting.
\<close>

definition raced :: "real App" where
  "raced =
     run initial_app
       [Invoke, Invoke, Settle 1 1000 (all_ok [agentA, agentB]),
        Settle 2 2000 (all_ok [agentA, agentB]), Click ''b2'']"


section \<open>Lemmas on the loops of the derived views\<close>

lemma fold_counts:
  "fold (\<lambda>a counts. counts(a_type a := counts (a_type a) + 1)) ags c t
     = c t + length (filter (\<lambda>a. a_type a = t) ags)"
  by (induction ags arbitrary: c) auto

lemma typeCounts_filter:
  "typeCounts ags t = length (filter (\<lambda>a. a_type a = t) ags)"
  unfolding typeCounts_def by (simp only: fold_counts)

lemma length_by_type:
  "length (filter (\<lambda>a. a_type a = CrewAI) ags) + length (filter (\<lambda>a. a_type a = LangGraph) ags)
     + length (filter (\<lambda>a. a_type a = BeeAI) ags) + length (filter (\<lambda>a. a_type a = OpenClaw) ags)
     + length (filter (\<lambda>a. a_type a = Admin) ags) = length ags"
proof (induction ags)
  case Nil
  show ?case by simp
next
  case (Cons a ags)
  then show ?case by (cases "a_type a") simp_all
qed

lemma fold_health_online:
  "online (fold (\<lambda>a health.
             if a_status a = Online \<or> a_status a = Busy
             then health(a_type a := (health (a_type a))\<lparr>online := online (health (a_type a)) + 1\<rparr>)
             else health(a_type a := (health (a_type a))\<lparr>offline := offline (health (a_type a)) + 1\<rparr>))
          ags h t)
   = online (h t) + length (filter (\<lambda>a. a_type a = t \<and> (a_status a = Online \<or> a_status a = Busy)) ags)"
  by (induction ags arbitrary: h) auto

lemma fold_health_offline:
  "offline (fold (\<lambda>a health.
             if a_status a = Online \<or> a_status a = Busy
             then health(a_type a := (health (a_type a))\<lparr>online := online (health (a_type a)) + 1\<rparr>)
             else health(a_type a := (health (a_type a))\<lparr>offline := offline (health (a_type a)) + 1\<rparr>))
          ags h t)
   = offline (h t) + length (filter (\<lambda>a. a_type a = t \<and> \<not> (a_status a = Online \<or> a_status a = Busy)) ags)"
  by (induction ags arbitrary: h) auto

lemma not_up_iff: "(\<not> (st = Online \<or> st = Busy)) = (st = Offline \<or> st = Error)"
  by (cases st) simp_all

lemma split_by_up:
  "length (filter (\<lambda>a. a_type a = t \<and> (a_status a = Online \<or> a_status a = Busy)) ags)
   + length (filter (\<lambda>a. a_type a = t \<and> \<not> (a_status a = Online \<or> a_status a = Busy)) ags)
   = length (filter (\<lambda>a. a_type a = t) ags)"
  by (induction ags) auto

lemma find_app:
  "find P (xs @ ys) = (case find P xs of None \<Rightarrow> find P ys | Some y \<Rightarrow> Some y)"
  by (induction xs) auto

lemma find_Some_mem: "find P xs = Some x \<Longrightarrow> P x \<and> x \<in> set xs"
  by (induction xs) (auto split: if_splits)

lemma fold_perf:
  "fold (\<lambda>m mp. mp(pm_agent_id m \<mapsto> m)) pms mp0 k
     = (case find (\<lambda>m. pm_agent_id m = k) (rev pms) of None \<Rightarrow> mp0 k | Some m \<Rightarrow> Some m)"
  by (induction pms arbitrary: mp0) (auto simp: find_app split: option.splits)

lemma perfByAgent_find:
  "perfByAgent pms k = find (\<lambda>m. pm_agent_id m = k) (rev pms)"
  unfolding perfByAgent_def by (simp only: fold_perf) (simp split: option.splits)

lemma selectedAgent_absent:
  "sid \<notin> a_id ` set ags \<Longrightarrow> selectedAgent ags (Some sid) = None"
  by (auto simp: selectedAgent_def find_None_iff)

subsection \<open>One heartbeat of \<^verbatim>\<open>typeLastActivity\<close>, seen from one agent type\<close>

lemma last_step_other:
  "\<not> resolves_to ags t hb \<Longrightarrow> last_step newDate ags hb lst t = lst t"
  by (auto simp: last_step_def resolves_to_def Let_def split: option.splits)

lemma last_step_valid_Some:
  assumes "resolves_to ags t hb" and "newDate (hb_timestamp hb) = ValidDate x"
    and "lst t = Some (ValidDate c)"
  shows "last_step newDate ags hb lst t = Some (ValidDate (max x c))"
  using assms by (auto simp: last_step_def resolves_to_def Let_def split: option.splits)

lemma last_step_None:
  assumes "resolves_to ags t hb" and "lst t = None"
  shows "last_step newDate ags hb lst t = Some (newDate (hb_timestamp hb))"
  using assms by (auto simp: last_step_def resolves_to_def Let_def split: option.splits)

lemma last_step_keeps_Some:
  "lst t = Some d \<Longrightarrow> \<exists>d'. last_step newDate ags hb lst t = Some d'"
  by (auto simp: last_step_def Let_def split: option.splits)

lemma last_step_invalid_Some:
  assumes "newDate (hb_timestamp hb) = InvalidDate" and "lst t = Some d"
  shows "last_step newDate ags hb lst t = Some d"
  using assms by (auto simp: last_step_def Let_def split: option.splits)

text \<open>
  Once the entry of type \<open>t\<close> holds a valid date \<open>c\<close>, the rest of the loop folds
  \<open>max\<close> over the time values of the heartbeats that resolve to \<open>t\<close> and parse; one
  that does not parse is passed over, since \<^verbatim>\<open>ts > current\<close> is false for it.
\<close>

lemma fold_last_from_Some:
  assumes "lst t = Some (ValidDate c)"
  shows "fold (last_step newDate ags) hbs lst t
     = Some (ValidDate (fold max
         (List.map_filter (\<lambda>hb. time_value (newDate (hb_timestamp hb)))
            (filter (resolves_to ags t) hbs)) c))"
  using assms
proof (induction hbs arbitrary: lst c)
  case Nil
  then show ?case by simp
next
  case (Cons hb hbs)
  show ?case
  proof (cases "resolves_to ags t hb")
    case False
    with Cons.prems have "last_step newDate ags hb lst t = Some (ValidDate c)"
      by (simp add: last_step_other)
    with Cons.IH [of "last_step newDate ags hb lst" c] False
    show ?thesis by simp
  next
    case True
    show ?thesis
    proof (cases "newDate (hb_timestamp hb)")
      case (ValidDate x)
      with True Cons.prems have "last_step newDate ags hb lst t = Some (ValidDate (max x c))"
        by (simp add: last_step_valid_Some)
      with Cons.IH [of "last_step newDate ags hb lst" "max x c"] True ValidDate
      show ?thesis by simp
    next
      case InvalidDate
      with Cons.prems have "last_step newDate ags hb lst t = Some (ValidDate c)"
        by (simp add: last_step_invalid_Some)
      with Cons.IH [of "last_step newDate ags hb lst" c] True InvalidDate
      show ?thesis by simp
    qed
  qed
qed

lemma fold_last_from_None:
  assumes "case filter (resolves_to ags t) hbs of
             [] \<Rightarrow> True | hb # rest \<Rightarrow> newDate (hb_timestamp hb) \<noteq> InvalidDate"
    and "lst t = None"
  shows "fold (last_step newDate ags) hbs lst t
     = (case List.map_filter (\<lambda>hb. time_value (newDate (hb_timestamp hb)))
               (filter (resolves_to ags t) hbs) of
          [] \<Rightarrow> None
        | x # xs \<Rightarrow> Some (ValidDate (fold max xs x)))"
  using assms
proof (induction hbs arbitrary: lst)
  case Nil
  then show ?case by simp
next
  case (Cons hb hbs)
  show ?case
  proof (cases "resolves_to ags t hb")
    case False
    with Cons.prems have "last_step newDate ags hb lst t = None"
      by (simp add: last_step_other)
    with Cons.IH [of "last_step newDate ags hb lst"] Cons.prems False
    show ?thesis by simp
  next
    case True
    with Cons.prems obtain x where x: "newDate (hb_timestamp hb) = ValidDate x"
      by (cases "newDate (hb_timestamp hb)") auto
    with True Cons.prems have "last_step newDate ags hb lst t = Some (ValidDate x)"
      by (simp add: last_step_None)
    with fold_last_from_Some [of "last_step newDate ags hb lst" t x newDate ags hbs] True x
    show ?thesis by simp
  qed
qed

lemma fold_last_None_iff:
  "fold (last_step newDate ags) hbs lst t = None
     \<longleftrightarrow> lst t = None \<and> filter (resolves_to ags t) hbs = []"
proof (induction hbs arbitrary: lst)
  case Nil
  show ?case by simp
next
  case (Cons hb hbs)
  show ?case
  proof (cases "resolves_to ags t hb")
    case False
    with Cons.IH [of "last_step newDate ags hb lst"] show ?thesis
      by (simp add: last_step_other)
  next
    case True
    have "\<exists>d. last_step newDate ags hb lst t = Some d"
    proof (cases "lst t")
      case None
      with True show ?thesis by (simp add: last_step_None)
    next
      case (Some d)
      then show ?thesis by (rule last_step_keeps_Some)
    qed
    with Cons.IH [of "last_step newDate ags hb lst"] True show ?thesis
      by auto
  qed
qed

lemma fold_last_skips_unresolved:
  "fold (last_step newDate ags)
      (filter (\<lambda>hb. find (\<lambda>a. a_id a = hb_agent_id hb) ags \<noteq> None) hbs) lst
   = fold (last_step newDate ags) hbs lst"
proof (induction hbs arbitrary: lst)
  case Nil
  show ?case by simp
next
  case (Cons hb hbs)
  show ?case
  proof (cases "find (\<lambda>a. a_id a = hb_agent_id hb) ags")
    case None
    then have "last_step newDate ags hb lst = lst"
      by (simp add: last_step_def)
    with None Cons.IH [of lst] show ?thesis by simp
  next
    case (Some a)
    with Cons.IH [of "last_step newDate ags hb lst"] show ?thesis by simp
  qed
qed

lemma fold_max_Max: "fold max xs (x::int) = Max (insert x (set xs))"
  using Max.set_eq_fold [of x xs] by simp

text \<open>
  Where the loop does compute the greatest timestamp: for every type whose first
  resolving heartbeat, in collection order, has a timestamp that parses (or that has no
  resolving heartbeat at all). Whatever the timestamps, heartbeats that match no agent
  are passed over, and a type has no value exactly when no heartbeat resolves to it.
\<close>

lemma typeLastActivity_when_first_parses:
  assumes "case filter (resolves_to ags t) hbs of
             [] \<Rightarrow> True | hb # rest \<Rightarrow> newDate (hb_timestamp hb) \<noteq> InvalidDate"
  shows "typeLastActivity newDate hbs ags t = spec_lastActivity newDate hbs ags t"
  unfolding typeLastActivity_def spec_lastActivity_def
  using fold_last_from_None [OF assms, of "\<lambda>_. None"]
  by (simp add: fold_max_Max split: list.splits)

lemma typeLastActivity_skips_unresolved:
  "typeLastActivity newDate
      (filter (\<lambda>hb. find (\<lambda>a. a_id a = hb_agent_id hb) ags \<noteq> None) hbs) ags
   = typeLastActivity newDate hbs ags"
  unfolding typeLastActivity_def by (rule fold_last_skips_unresolved)

lemma typeLastActivity_no_value:
  "lastActivityCell (typeLastActivity newDate hbs ags t) = EmDash
     \<longleftrightarrow> filter (resolves_to ags t) hbs = []"
  unfolding typeLastActivity_def lastActivityCell_def
  using fold_last_None_iff [of newDate ags hbs "\<lambda>_. None" t]
  by (cases "fold (last_step newDate ags) hbs (\<lambda>_. None) t") auto


section \<open>Lemmas on the controller and the sample runs\<close>

lemmas controller_defs =
  run_def initial_app_def initial_state_def invoke_def fetchAll_begin_def fetchAll_settle_def
  fetchAll_try_def after_render_def truthy_def all_ok_def alerts_500_def transport_failure_def
  ok_response_def error_response_def

lemma loaded_state:
  "loaded =
     \<lparr>ui = \<lparr>agents = [agentA, agentE], heartbeats = [], perfMetrics = [pmFirst], alerts = [],
             loading = False, error = None, selectedAgentId = Some ''a1'', activeTab = Crons,
             lastUpdated = Some 2000, showAlertsPanel = False, refreshSeconds = 15\<rparr>,
      pending = [], started = 2\<rparr>"
  by (simp add: loaded_def controller_defs agentA_def)

lemma overlapped_state:
  "overlapped =
     \<lparr>ui = \<lparr>agents = [agentA_later], heartbeats = [], perfMetrics = [pmFirst], alerts = [],
             loading = False, error = None, selectedAgentId = Some ''a1'', activeTab = Crons,
             lastUpdated = Some 3000, showAlertsPanel = False, refreshSeconds = 15\<rparr>,
      pending = [(1, Some ''a1'')], started = 3\<rparr>"
  by (simp add: overlapped_def controller_defs agentA_def)

lemma show_500: "show_nat 500 = ''500''"
  by (simp add: show_nat.simps)

text \<open>
  The selection after a successful cycle: the first agent of the new collection when
  the captured selection is falsy and the collection is non-empty, the selection of the
  moment otherwise.
\<close>

lemma successful_cycle_selection:
  assumes "fetchAll_try settled = Inr (agentsData, hbData, perfData, alertsData)"
  shows "selectedAgentId (fetchAll_settle captured now settled s)
     = (if \<not> truthy captured \<and> agentsData \<noteq> [] then Some (a_id (hd agentsData))
        else selectedAgentId s)"
  using assms by (cases agentsData) (simp_all add: fetchAll_settle_def Let_def)

text \<open>
  A first load that brings no agents selects nothing, and the columns show the
  no-selection placeholder.
\<close>

lemma first_load_without_agents:
  assumes "fetchAll_try settled = Inr ([], hbData, perfData, alertsData)"
  shows "selectedAgentId (fetchAll_settle None now settled initial_state) = None
    \<and> v_columns (render (fetchAll_settle None now settled initial_state))
        = Some ([], DetailEmpty)"
  using assms
  by (simp add: fetchAll_settle_def Let_def initial_state_def render_def truthy_def
      detailPane_def selectedAgent_def)

text \<open>
  The captured selection can be older than the state: when invocation 0 of \<open>raced\<close>
  finally delivers, its closure still holds the null selection of the mount, and the
  selection of B made in the meantime is replaced by the first agent.
\<close>

lemma stale_closure_bootstrap:
  "selectedAgentId (ui raced) = Some ''b2''
   \<and> map_of (pending raced) 0 = Some None
   \<and> selectedAgentId (ui (step raced (Settle 0 5000 (all_ok [agentA, agentB])))) = Some ''a1''"
  by (simp add: raced_def controller_defs agentA_def agentB_def)

lemma fetchAll_try_failed:
  "cycle_failed settled \<Longrightarrow> fetchAll_try settled = Inl (ErrorObj (surfaced_message settled))
     \<or> (settled = Inl NonErrorValue \<and> fetchAll_try settled = Inl NonErrorValue)"
  by (auto simp: cycle_failed_def fetchAll_try_def surfaced_message_def first_failure_def
      split: sum.splits Thrown.splits prod.splits)


section \<open>The claims about the derived views\<close>

text \<open>
  Claim C8. For every agent collection, the per-type counts over the five agent types
  CrewAI, LangGraph, BeeAI, OpenClaw and Admin add up to the number of agents.
\<close>

theorem C8_typeCounts_sum:
  "typeCounts ags CrewAI + typeCounts ags LangGraph + typeCounts ags BeeAI
     + typeCounts ags OpenClaw + typeCounts ags Admin = length ags"
  by (simp only: typeCounts_filter length_by_type)

theorem C8_typeCounts_sum_witness:
  "typeCounts [agentA, agentB, agentC] CrewAI + typeCounts [agentA, agentB, agentC] LangGraph
     + typeCounts [agentA, agentB, agentC] BeeAI + typeCounts [agentA, agentB, agentC] OpenClaw
     + typeCounts [agentA, agentB, agentC] Admin = 3"
  using C8_typeCounts_sum [of "[agentA, agentB, agentC]"] by simp

text \<open>
  Claim C4. For every agent collection and every type, the online counter of the
  per-type health is the number of agents of the type whose status is online or busy,
  the offline counter is the number of those whose status is offline or error, and the
  two counters add up to the per-type count.
\<close>

theorem C4_typeHealth_buckets:
  "online (typeHealth ags t)
     = length (filter (\<lambda>a. a_type a = t \<and> (a_status a = Online \<or> a_status a = Busy)) ags)
   \<and> offline (typeHealth ags t)
     = length (filter (\<lambda>a. a_type a = t \<and> (a_status a = Offline \<or> a_status a = Error)) ags)
   \<and> online (typeHealth ags t) + offline (typeHealth ags t) = typeCounts ags t"
proof -
  have on: "online (typeHealth ags t)
     = length (filter (\<lambda>a. a_type a = t \<and> (a_status a = Online \<or> a_status a = Busy)) ags)"
    unfolding typeHealth_def by (simp only: fold_health_online) simp
  have off: "offline (typeHealth ags t)
     = length (filter (\<lambda>a. a_type a = t \<and> \<not> (a_status a = Online \<or> a_status a = Busy)) ags)"
    unfolding typeHealth_def by (simp only: fold_health_offline) simp
  have sum: "online (typeHealth ags t) + offline (typeHealth ags t) = typeCounts ags t"
    by (simp only: on off split_by_up typeCounts_filter)
  from on off sum show ?thesis by (simp only: not_up_iff)
qed

text \<open>
  The scenario of the specification: A is CrewAI and online, B is LangGraph and in
  error, C is BeeAI and offline.
\<close>

theorem C4_typeHealth_buckets_witness:
  "online (typeHealth [agentA, agentB, agentC] CrewAI) = 1
   \<and> offline (typeHealth [agentA, agentB, agentC] CrewAI) = 0
   \<and> online (typeHealth [agentA, agentB, agentC] LangGraph) = 0
   \<and> offline (typeHealth [agentA, agentB, agentC] LangGraph) = 1
   \<and> typeCounts [agentA, agentB, agentC] CrewAI = 1
   \<and> typeCounts [agentA, agentB, agentC] LangGraph = 1"
  using C4_typeHealth_buckets [of "[agentA, agentB, agentC]" CrewAI]
    C4_typeHealth_buckets [of "[agentA, agentB, agentC]" LangGraph]
  by (simp add: agentA_def agentB_def agentC_def)

text \<open>
  Claim C6. For every agent collection, the overdue count is the number of agents
  (counted by position, so that equal rows count twice) whose status is offline or
  error, and it is at most the number of agents.
\<close>

theorem C6_overdueCount:
  "overdueCount ags
     = card {i. i < length ags \<and> (a_status (ags ! i) = Offline \<or> a_status (ags ! i) = Error)}
   \<and> overdueCount ags \<le> length ags"
proof
  show "overdueCount ags
     = card {i. i < length ags \<and> (a_status (ags ! i) = Offline \<or> a_status (ags ! i) = Error)}"
    unfolding overdueCount_def by (rule length_filter_conv_card)
  show "overdueCount ags \<le> length ags"
    unfolding overdueCount_def by (rule length_filter_le)
qed

theorem C6_overdueCount_witness:
  "overdueCount [agentA, agentB, agentC] = 2 \<and> overdueCount [agentA, agentB, agentC] \<le> 3"
proof -
  have "overdueCount [agentA, agentB, agentC] = 2"
    by (simp add: overdueCount_def agentA_def agentB_def agentC_def)
  with C6_overdueCount [of "[agentA, agentB, agentC]"] show ?thesis by simp
qed

text \<open>
  Claim C7. For every performance-metric collection, the keys of the performance index
  are the agent identifiers that occur in the collection; the row stored under a key is
  a row of the collection with that identifier; and among several rows with one
  identifier the last in collection order is the one stored.
\<close>

theorem C7_perfByAgent_last_wins:
  "dom (perfByAgent pms) = pm_agent_id ` set pms
   \<and> (\<forall>m. perfByAgent pms k = Some m \<longrightarrow> pm_agent_id m = k \<and> m \<in> set pms)
   \<and> (\<forall>before m after. pms = before @ m # after \<and> pm_agent_id m = k
          \<and> k \<notin> pm_agent_id ` set after \<longrightarrow> perfByAgent pms k = Some m)"
proof -
  have keys: "dom (perfByAgent pms) = pm_agent_id ` set pms"
    by (auto simp: perfByAgent_find dom_def find_None_iff image_iff)
  have row: "pm_agent_id m = k \<and> m \<in> set pms" if "perfByAgent pms k = Some m" for m
    using that find_Some_mem [of "\<lambda>m. pm_agent_id m = k" "rev pms" m]
    by (simp add: perfByAgent_find)
  have last: "perfByAgent pms k = Some m"
    if h: "pms = before @ m # after \<and> pm_agent_id m = k \<and> k \<notin> pm_agent_id ` set after"
    for before m after
  proof -
    from h have "find (\<lambda>m. pm_agent_id m = k) (rev after) = None"
      by (force simp: find_None_iff image_iff)
    with h show ?thesis
      by (simp add: perfByAgent_find find_app)
  qed
  from keys row last show ?thesis by blast
qed

theorem C7_perfByAgent_last_wins_witness:
  "perfByAgent [pmFirst, pmOther, pmSecond] ''a1'' = Some pmSecond
   \<and> pmSecond \<noteq> pmFirst \<and> pm_agent_id pmFirst = pm_agent_id pmSecond
   \<and> dom (perfByAgent [pmFirst, pmOther, pmSecond]) = {''a1'', ''b2''}"
proof -
  have h: "[pmFirst, pmOther, pmSecond] = [pmFirst, pmOther] @ pmSecond # []
      \<and> pm_agent_id pmSecond = ''a1'' \<and> ''a1'' \<notin> pm_agent_id ` set []"
    by (simp add: pmSecond_def)
  from C7_perfByAgent_last_wins [of "[pmFirst, pmOther, pmSecond]" "''a1''"] h
  have "perfByAgent [pmFirst, pmOther, pmSecond] ''a1'' = Some pmSecond"
    and "dom (perfByAgent [pmFirst, pmOther, pmSecond])
      = pm_agent_id ` set [pmFirst, pmOther, pmSecond]"
    by blast+
  then show ?thesis
    by (auto simp: pmFirst_def pmOther_def pmSecond_def)
qed

text \<open>
  Claim C9. For every state whose selected identifier belongs to no agent of the agent
  collection, resolving the selection yields no agent, the detail pane is the
  no-selection placeholder, and pane and whole view are those of the same state with
  nothing selected. None of the functions involved has a failing branch: the source
  uses only \<^verbatim>\<open>find\<close>, \<^verbatim>\<open>??\<close> and a conditional on the result.
\<close>

theorem C9_unknown_selection:
  assumes "sid \<notin> a_id ` set (agents s)" and "selectedAgentId s = Some sid"
  shows "selectedAgent (agents s) (selectedAgentId s) = None
    \<and> detailPane s = DetailEmpty
    \<and> detailPane s = detailPane (s\<lparr>selectedAgentId := None\<rparr>)
    \<and> render s = render (s\<lparr>selectedAgentId := None\<rparr>)"
proof -
  from assms have none: "selectedAgent (agents s) (selectedAgentId s) = None"
    by (simp add: selectedAgent_absent)
  have none': "selectedAgent (agents s) None = None"
    by (simp add: selectedAgent_def)
  from none none' show ?thesis
    by (simp add: detailPane_def render_def)
qed

theorem C9_unknown_selection_witness:
  "selectedAgent (agents (ui loaded)) (Some ''zz'') = None
   \<and> detailPane ((ui loaded)\<lparr>selectedAgentId := Some ''zz''\<rparr>) = DetailEmpty"
proof -
  have h1: "''zz'' \<notin> a_id ` set (agents ((ui loaded)\<lparr>selectedAgentId := Some ''zz''\<rparr>))"
    by (simp add: loaded_state agentA_def agentE_def)
  have h2: "selectedAgentId ((ui loaded)\<lparr>selectedAgentId := Some ''zz''\<rparr>) = Some ''zz''"
    by simp
  from C9_unknown_selection [OF h1 h2] show ?thesis by simp
qed

text \<open>
  Claim C3 on the code, at a heartbeat whose timestamp string does not parse. The three
  heartbeats belong to agent A, of type CrewAI; the first has the timestamp \<^verbatim>\<open>''\<close>, the
  other two are five minutes apart. \<^verbatim>\<open>new Date('')\<close> is an invalid date; the entry being
  null it is stored, and it stays, since no later \<^verbatim>\<open>ts > current\<close> holds against it. The
  last activity of CrewAI is the invalid date, not the greatest timestamp among the
  heartbeats, which is the later of the two that parse. With the same three heartbeats in
  another order, the blank one last, the loop does return that greatest timestamp.
\<close>

theorem C3_invalid_date_sticks:
  "typeLastActivity sample_newDate [hbBlank, hbEarly, hbLate] [agentA] CrewAI = Some InvalidDate
   \<and> lastActivityCell (typeLastActivity sample_newDate [hbBlank, hbEarly, hbLate] [agentA] CrewAI)
       = LocaleTimeString InvalidDate
   \<and> spec_lastActivity sample_newDate [hbBlank, hbEarly, hbLate] [agentA] CrewAI
       = Some (ValidDate 1704067500000)
   \<and> typeLastActivity sample_newDate [hbEarly, hbLate, hbBlank] [agentA] CrewAI
       = Some (ValidDate 1704067500000)"
  by (simp add: typeLastActivity_def last_step_def spec_lastActivity_def resolves_to_def
      lastActivityCell_def sample_newDate_def hbBlank_def hbEarly_def hbLate_def agentA_def)

section \<open>The claims about the fetch/refresh controller\<close>

text \<open>
  Claim C1, as the specification states it, fails in two places. The application is
  loaded and shows agents A and E; the next cycle gets status 500 for the alerts and
  success for the rest. The agents stay in the state, but the view is the error banner
  alone: the columns, and with them the agent cards, are rendered under
  \<^verbatim>\<open>!loading && !error\<close> only. And when the cycle fails in transport, the message is the
  rejection's own (\<^verbatim>\<open>Failed to fetch\<close> in the sample), which names neither a resource
  nor a status code.
\<close>

theorem C1_failed_cycle_counterexample:
  "agents (ui (run loaded [Invoke, Settle 2 3000 (alerts_500 [agentA_later, agentE])]))
      = [agentA, agentE]
   \<and> render (ui (run loaded [Invoke, Settle 2 3000 (alerts_500 [agentA_later, agentE])]))
      = \<lparr>v_top_summary = (0, 2), v_last_update = Some 2000, v_loading = False,
         v_error_banner = Some ''Failed to load alerts: 500'', v_columns = None\<rparr>
   \<and> error (ui (run loaded [Invoke, Settle 2 3000 transport_failure])) = Some ''Failed to fetch''"
  by (simp add: loaded_state controller_defs render_def show_500 overdueCount_def
      agentA_def agentE_def)

text \<open>
  Claim C1, amended. For every refresh cycle in which the joined fetches reject or one
  of the four responses has a non-success status, whatever the state and the captured
  selection: the four collections, the selection and the last-update stamp are left as
  they were, loading ends, and the error state holds one message: the reason's own
  message for a rejection (a fixed text when the reason is no \<^verbatim>\<open>Error\<close>), and otherwise
  \<^verbatim>\<open>Failed to load <resource>: <status>\<close> for the first response, in the order agents,
  heartbeats, performance metrics, alerts, whose status is not a success. When that
  message is not empty, the view shows the banner with it and no columns; of the kept
  snapshot only the top-bar counts and the last-update time remain on screen.
\<close>

theorem C1_failed_cycle:
  assumes "cycle_failed settled"
  shows "agents (fetchAll_settle captured now settled s) = agents s
    \<and> heartbeats (fetchAll_settle captured now settled s) = heartbeats s
    \<and> perfMetrics (fetchAll_settle captured now settled s) = perfMetrics s
    \<and> alerts (fetchAll_settle captured now settled s) = alerts s
    \<and> selectedAgentId (fetchAll_settle captured now settled s) = selectedAgentId s
    \<and> lastUpdated (fetchAll_settle captured now settled s) = lastUpdated s
    \<and> loading (fetchAll_settle captured now settled s) = False
    \<and> error (fetchAll_settle captured now settled s) = Some (surfaced_message settled)
    \<and> render (fetchAll_settle captured now settled s)
        = \<lparr>v_top_summary = (overdueCount (agents s), length (agents s)),
           v_last_update = lastUpdated s,
           v_loading = False,
           v_error_banner =
             (if surfaced_message settled = [] then None else Some (surfaced_message settled)),
           v_columns =
             (if surfaced_message settled = [] then Some (agents s, detailPane s) else None)\<rparr>"
proof -
  from fetchAll_try_failed [OF assms]
  have s': "fetchAll_settle captured now settled s
      = s\<lparr>error := Some (surfaced_message settled), loading := False\<rparr>"
    by (auto simp: fetchAll_settle_def surfaced_message_def)
  show ?thesis
    by (simp add: s' render_def truthy_def detailPane_def split: option.splits)
qed

theorem C1_failed_cycle_witness:
  "cycle_failed (alerts_500 [agentA_later, agentE])
   \<and> agents (fetchAll_settle (Some ''a1'') 3000 (alerts_500 [agentA_later, agentE]) (ui loaded))
       = [agentA, agentE]
   \<and> error (fetchAll_settle (Some ''a1'') 3000 (alerts_500 [agentA_later, agentE]) (ui loaded))
       = Some ''Failed to load alerts: 500''"
proof -
  have f: "cycle_failed (alerts_500 [agentA_later, agentE])"
    by (simp add: cycle_failed_def controller_defs)
  have m: "surfaced_message (alerts_500 [agentA_later, agentE]) = ''Failed to load alerts: 500''"
    by (simp add: surfaced_message_def first_failure_def controller_defs show_500)
  from C1_failed_cycle [OF f, of "Some ''a1''" 3000 "ui loaded"] f m show ?thesis
    by (simp add: loaded_state)
qed

text \<open>
  Claim C2, as the specification states it, fails: the source has no cycle counter and
  cancels nothing. In the run \<open>overlapped\<close> three invocations have been started;
  invocation 2, the newest, has delivered the later observation of agent A and is done,
  while invocation 1 still waits. When the responses of invocation 1 arrive, they
  replace the newer snapshot by the older one.
\<close>

theorem C2_stale_response_counterexample:
  "started overlapped = 3
   \<and> map_of (pending overlapped) 1 = Some (Some ''a1'')
   \<and> map_of (pending overlapped) 2 = None
   \<and> agents (ui overlapped) = [agentA_later]
   \<and> lastUpdated (ui overlapped) = Some 3000
   \<and> agents (ui (step overlapped (Settle 1 4000 (all_ok [agentA])))) = [agentA]
   \<and> agentA \<noteq> agentA_later"
  by (simp add: overlapped_state controller_defs agentA_def agentA_later_def)

text \<open>
  Claim C2, amended. Responses are applied in completion order and none is discarded:
  whenever the responses of a waiting invocation arrive with four success statuses and
  four decodable bodies, they replace the four collections, clear the error and set the
  last-update stamp, whatever else has been started or has completed in the meantime.
\<close>

theorem C2_completion_order:
  assumes "map_of (pending app) k = Some captured"
    and "fetchAll_try settled = Inr (agentsData, hbData, perfData, alertsData)"
  shows "agents (ui (step app (Settle k now settled))) = agentsData
    \<and> heartbeats (ui (step app (Settle k now settled))) = hbData
    \<and> perfMetrics (ui (step app (Settle k now settled))) = perfData
    \<and> alerts (ui (step app (Settle k now settled))) = alertsData
    \<and> error (ui (step app (Settle k now settled))) = None
    \<and> lastUpdated (ui (step app (Settle k now settled))) = Some now"
  using assms
  by (simp add: after_render_def invoke_def fetchAll_begin_def fetchAll_settle_def Let_def)

theorem C2_completion_order_witness:
  "Suc 1 < started overlapped
   \<and> agents (ui overlapped) = [agentA_later]
   \<and> agents (ui (step overlapped (Settle 1 4000 (all_ok [agentA])))) = [agentA]
   \<and> lastUpdated (ui (step overlapped (Settle 1 4000 (all_ok [agentA])))) = Some 4000"
proof -
  have p: "map_of (pending overlapped) 1 = Some (Some ''a1'')"
    by (simp add: overlapped_state)
  have t: "fetchAll_try (all_ok [agentA]) = Inr ([agentA], [], [pmFirst], [])"
    by (simp add: controller_defs)
  from C2_completion_order [OF p t, of 4000] show ?thesis
    by (simp add: overlapped_state)
qed

text \<open>
  Claim C5 on the code, at a selected agent whose identifier is the empty string. The
  application is loaded with agents A and E, E having the identifier \<^verbatim>\<open>''\<close>. A click on
  the card of E selects it: the detail pane shows E, and the effect starts invocation 2,
  whose closure holds the selection \<^verbatim>\<open>''\<close>. Its responses bring the same two agents; the
  test \<^verbatim>\<open>!selectedAgentId\<close> holds for the empty string, so the selection is replaced by
  the first agent, A. The selection of E does not survive the refresh.
\<close>

theorem C5_empty_id_selection_lost:
  "selectedAgentId (ui (run loaded [Click []])) = Some []
   \<and> detailPane (ui (run loaded [Click []])) = DetailOf agentE None
   \<and> pending (run loaded [Click []]) = [(2, Some [])]
   \<and> agents (ui (run loaded [Click [], Settle 2 3000 (all_ok [agentA, agentE])]))
       = [agentA, agentE]
   \<and> selectedAgentId (ui (run loaded [Click [], Settle 2 3000 (all_ok [agentA, agentE])]))
       = Some ''a1''"
  by (simp add: loaded_state controller_defs detailPane_def selectedAgent_def perfByAgent_def
      agentA_def agentE_def pmFirst_def)

text \<open>
  Claim C10 on the code, at the same selection. Agent E, identifier \<^verbatim>\<open>''\<close>, is selected,
  so the selection is not null; the next cycle brings agent A alone. The identifier
  \<^verbatim>\<open>''\<close> now dangles, and the refresh replaces it by the identifier of the first agent of
  the new collection.
\<close>

theorem C10_dangling_empty_id_replaced:
  "selectedAgentId (ui (run loaded [Click []])) = Some []
   \<and> agents (ui (run loaded [Click [], Settle 2 3000 (all_ok [agentA])])) = [agentA]
   \<and> selectedAgent [agentA] (Some []) = None
   \<and> selectedAgentId (ui (run loaded [Click [], Settle 2 3000 (all_ok [agentA])]))
       = Some (a_id agentA)
   \<and> a_id agentA \<noteq> []"
  by (simp add: loaded_state controller_defs selectedAgent_def agentA_def)

end
